theory Spec2Isabelle
  imports Complex_Main
begin

section \<open>The workbook model of the spreadsheet library\<close>

text \<open>
  The script \<^verbatim>\<open>create_test_workbook.py\<close> drives the openpyxl library: it creates a
  workbook object, mutates cells, styles and sheet attributes, and saves the workbook.
  The objects the script touches are modelled as records, the library calls it makes as
  functions on them. A call that can raise returns \<open>error + 'a\<close> with \<open>Inl\<close> for the
  exception.
\<close>

datatype error = ValueError string | AttributeError string | OSError string

text \<open>
  A cell value as the script writes it: \<open>None\<close>, a Python \<open>int\<close>, a \<open>str\<close>, or a
  \<open>float\<close> literal. A float literal is kept as the decimal the source spells:
  \<open>VFloat m k\<close> stands for the literal with digits \<open>m\<close> and \<open>k\<close> places after the point
  (\<open>0.15\<close> is \<open>VFloat 15 2\<close>).
\<close>

datatype cell_value = VNone | VInt int | VFloat int nat | VStr string

text \<open>The \<open>data_type\<close> tag openpyxl keeps beside a value: \<open>'n'\<close>, \<open>'s'\<close> or \<open>'f'\<close>.\<close>

datatype data_type = TypeNumeric | TypeString | TypeFormula

record font =
  bold :: bool
  color :: "string option"

record pattern_fill =
  start_color :: string
  end_color :: string
  fill_type :: "string option"

record border =
  bottom :: "string option"

record cell =
  cvalue :: cell_value
  data_type :: data_type
  cfont :: font
  fill :: pattern_fill
  cborder :: border
  number_format :: string

record cell_is_rule =
  operator :: string
  formula :: "string list"
  rule_fill :: pattern_fill
  rule_font :: font

record sheet =
  title :: string
  cells :: "(nat \<times> nat) \<rightharpoonup> cell"
  conditional_formatting :: "(string \<times> cell_is_rule) list"
  freeze_panes :: "string option"
  column_dimensions :: "string \<rightharpoonup> int"

record defined_name =
  dn_name :: string
  attr_text :: string

record workbook =
  sheets :: "sheet list"
  defined_names :: "string \<rightharpoonup> defined_name"

subsection \<open>Constructors with the library's defaults\<close>

definition Font :: "bool \<Rightarrow> string option \<Rightarrow> font" where
  "Font b c = \<lparr>bold = b, color = c\<rparr>"

definition PatternFill :: "string \<Rightarrow> string \<Rightarrow> string option \<Rightarrow> pattern_fill" where
  "PatternFill sc ec ft = \<lparr>start_color = sc, end_color = ec, fill_type = ft\<rparr>"

definition Border :: "string option \<Rightarrow> border" where
  "Border b = \<lparr>bottom = b\<rparr>"

definition DEFAULT_FONT :: font where
  "DEFAULT_FONT = Font False None"

definition DEFAULT_FILL :: pattern_fill where
  "DEFAULT_FILL = PatternFill ''00000000'' ''00000000'' None"

definition DEFAULT_BORDER :: border where
  "DEFAULT_BORDER = Border None"

definition Cell :: cell where
  "Cell = \<lparr>cvalue = VNone, data_type = TypeNumeric, cfont = DEFAULT_FONT,
            fill = DEFAULT_FILL, cborder = DEFAULT_BORDER, number_format = ''General''\<rparr>"

definition CellIsRule :: "string \<Rightarrow> string list \<Rightarrow> pattern_fill \<Rightarrow> font \<Rightarrow> cell_is_rule" where
  "CellIsRule opr f fl fn = \<lparr>operator = opr, formula = f, rule_fill = fl, rule_font = fn\<rparr>"

definition DefinedName :: "string \<Rightarrow> string \<Rightarrow> defined_name" where
  "DefinedName n t = \<lparr>dn_name = n, attr_text = t\<rparr>"

definition Worksheet :: "string \<Rightarrow> sheet" where
  "Worksheet t = \<lparr>title = t, cells = Map.empty, conditional_formatting = [],
                   freeze_panes = None, column_dimensions = Map.empty\<rparr>"

text \<open>\<open>Workbook()\<close> starts with one sheet, titled \<open>Sheet\<close>, which is the active one.\<close>

definition Workbook :: workbook where
  "Workbook = \<lparr>sheets = [Worksheet ''Sheet''], defined_names = Map.empty\<rparr>"

subsection \<open>Python's \<open>str\<close> on a non-negative integer\<close>

definition digit_char :: "nat \<Rightarrow> char" where
  "digit_char d = ''0123456789'' ! (d mod 10)"

function str_nat :: "nat \<Rightarrow> string" where
  "str_nat n = (if n < 10 then [digit_char n] else str_nat (n div 10) @ [digit_char (n mod 10)])"
  by pat_completeness auto
termination
  by (relation "measure id") auto

declare str_nat.simps [simp del]

subsection \<open>\<open>openpyxl.utils.get_column_letter\<close>\<close>

text \<open>
  The library converts a column index in \<open>1..18278\<close> to its letters (\<open>A\<close>, ..., \<open>Z\<close>,
  \<open>AA\<close>, ..., \<open>ZZZ\<close>) by repeated division by 26 with the remainder 0 read as 26, and
  raises \<open>ValueError\<close> outside that range.
\<close>

definition letter_char :: "nat \<Rightarrow> char" where
  "letter_char k = ''ABCDEFGHIJKLMNOPQRSTUVWXYZ'' ! ((k - 1) mod 26)"

function column_letters :: "nat \<Rightarrow> string" where
  "column_letters n =
     (if n = 0 then []
      else (let q = n div 26; r = n mod 26 in
            if r = 0 then column_letters (q - 1) @ [letter_char 26]
            else column_letters q @ [letter_char r]))"
  by pat_completeness auto
termination
  by (relation "measure id") (auto simp: Let_def intro: le_less_trans [OF diff_le_self])

declare column_letters.simps [simp del]

definition get_column_letter :: "nat \<Rightarrow> error + string" where
  "get_column_letter col_idx =
     (if 1 \<le> col_idx \<and> col_idx \<le> 18278 then Inr (column_letters col_idx)
      else Inl (ValueError (''Invalid column index '' @ str_nat col_idx)))"

subsection \<open>Statements: state transformers that may raise\<close>

type_synonym 's stmt = "'s \<Rightarrow> error + 's"

text \<open>A block of statements runs them in order and stops at the first exception.\<close>

fun block :: "'s stmt list \<Rightarrow> 's stmt" where
  "block [] s = Inr s"
| "block (f # fs) s = (case f s of Inl e \<Rightarrow> Inl e | Inr s' \<Rightarrow> block fs s')"

text \<open>A \<open>for\<close> loop over a list runs its body once per element, in order.\<close>

fun for_each :: "'a list \<Rightarrow> ('a \<Rightarrow> 's stmt) \<Rightarrow> 's stmt" where
  "for_each [] body s = Inr s"
| "for_each (x # xs) body s = (case body x s of Inl e \<Rightarrow> Inl e | Inr s' \<Rightarrow> for_each xs body s')"

definition bind_result :: "error + 'a \<Rightarrow> ('a \<Rightarrow> error + 'b) \<Rightarrow> error + 'b" where
  "bind_result m f = (case m of Inl e \<Rightarrow> Inl e | Inr x \<Rightarrow> f x)"

subsection \<open>Cells\<close>

text \<open>
  Assigning \<open>cell.value\<close> binds the value and sets the data type: a number is numeric,
  a string longer than one character that starts with \<open>=\<close> is a formula, any other
  string is a string, \<open>None\<close> is the empty numeric cell.
\<close>

definition bind_value :: "cell_value \<Rightarrow> cell \<Rightarrow> cell" where
  "bind_value v c =
     (case v of
        VStr s \<Rightarrow> c\<lparr>cvalue := v,
                    data_type := (if length s > 1 \<and> hd s = CHR ''='' then TypeFormula else TypeString)\<rparr>
      | _ \<Rightarrow> c\<lparr>cvalue := v, data_type := TypeNumeric\<rparr>)"

definition get_cell :: "sheet \<Rightarrow> nat \<Rightarrow> nat \<Rightarrow> cell" where
  "get_cell ws row column = (case cells ws (row, column) of None \<Rightarrow> Cell | Some c \<Rightarrow> c)"

text \<open>
  \<open>ws.cell(row, column, value)\<close> followed by attribute assignments on the cell it returns.
  The library raises \<open>ValueError\<close> for a row or column below 1, creates the cell when the
  sheet has none there, and assigns the value when it is not \<open>None\<close>. The cell returned is
  the sheet's own cell object, so the assignments \<open>upd\<close> made through it land in the sheet.
\<close>

definition ws_cell :: "nat \<Rightarrow> nat \<Rightarrow> cell_value \<Rightarrow> (cell \<Rightarrow> cell) \<Rightarrow> sheet stmt" where
  "ws_cell row column v upd ws =
     (if row < 1 \<or> column < 1 then Inl (ValueError ''Row or column values must be at least 1'')
      else (let c = get_cell ws row column;
                c' = (if v \<noteq> VNone then bind_value v c else c)
            in Inr (ws\<lparr>cells := (cells ws)((row, column) \<mapsto> upd c')\<rparr>)))"

definition add_conditional_formatting :: "string \<Rightarrow> cell_is_rule \<Rightarrow> sheet stmt" where
  "add_conditional_formatting rng rule ws =
     Inr (ws\<lparr>conditional_formatting := conditional_formatting ws @ [(rng, rule)]\<rparr>)"

text \<open>Freezing at \<open>A1\<close> freezes nothing, and the library stores \<open>None\<close> for it.\<close>

definition set_freeze_panes :: "string \<Rightarrow> sheet stmt" where
  "set_freeze_panes topLeftCell ws =
     Inr (ws\<lparr>freeze_panes := (if topLeftCell = ''A1'' then None else Some topLeftCell)\<rparr>)"

definition set_column_width :: "string \<Rightarrow> int \<Rightarrow> sheet stmt" where
  "set_column_width col width ws =
     Inr (ws\<lparr>column_dimensions := (column_dimensions ws)(col \<mapsto> width)\<rparr>)"

subsection \<open>Workbooks\<close>

definition sheetnames :: "workbook \<Rightarrow> string list" where
  "sheetnames wb = map title (sheets wb)"

text \<open>
  A sheet title in use is not given twice: the library appends a counter, one above the
  highest counter that follows the title in the names in use. The conversion of a digit
  string back to a number is \<open>digits_nat\<close>.
\<close>

definition is_digit :: "char \<Rightarrow> bool" where
  "is_digit ch = (ch \<in> set ''0123456789'')"

definition digits_nat :: "string \<Rightarrow> nat" where
  "digits_nat ds = foldl (\<lambda>acc ch. 10 * acc + (of_char ch - 48)) 0 ds"

definition title_count :: "string \<Rightarrow> string \<Rightarrow> nat" where
  "title_count v n =
     (let rest = drop (length v) n in
      if take (length v) n = v \<and> rest \<noteq> [] \<and> list_all is_digit rest then digits_nat rest else 0)"

definition avoid_duplicate_name :: "string list \<Rightarrow> string \<Rightarrow> string" where
  "avoid_duplicate_name names v =
     (if v \<in> set names then v @ str_nat (Suc (fold max (map (title_count v) names) 0)) else v)"

text \<open>
  A worksheet variable of the script (\<open>ws1\<close>, \<open>ws2\<close>, \<open>ws3\<close>) refers to a sheet the
  workbook owns; the model keeps the reference as the sheet's index. \<open>wb.active\<close> is the
  sheet at index 0, and \<open>None\<close> in a workbook without sheets.
\<close>

definition active :: "workbook \<Rightarrow> nat option" where
  "active wb = (if sheets wb = [] then None else Some 0)"

definition on_sheet :: "nat option \<Rightarrow> sheet stmt \<Rightarrow> workbook stmt" where
  "on_sheet r f wb =
     (case r of
        None \<Rightarrow> Inl (AttributeError ''NoneType object has no attribute'')
      | Some i \<Rightarrow>
          if i < length (sheets wb)
          then (case f (sheets wb ! i) of
                  Inl e \<Rightarrow> Inl e
                | Inr ws \<Rightarrow> Inr (wb\<lparr>sheets := (sheets wb)[i := ws]\<rparr>))
          else Inl (AttributeError ''NoneType object has no attribute''))"

text \<open>\<open>ws.title = value\<close>: a changed title goes through the duplicate check.\<close>

definition set_title :: "nat option \<Rightarrow> string \<Rightarrow> workbook stmt" where
  "set_title r v wb =
     on_sheet r (\<lambda>ws. Inr (ws\<lparr>title := (if title ws \<noteq> v then avoid_duplicate_name (sheetnames wb) v
                                         else v)\<rparr>)) wb"

text \<open>\<open>wb.create_sheet(title)\<close> appends a sheet and returns it.\<close>

definition create_sheet :: "string \<Rightarrow> workbook \<Rightarrow> workbook \<times> nat option" where
  "create_sheet t wb =
     (wb\<lparr>sheets := sheets wb @ [Worksheet (avoid_duplicate_name (sheetnames wb) t)]\<rparr>,
      Some (length (sheets wb)))"

text \<open>\<open>wb.defined_names.add(dn)\<close> stores the name in a dictionary keyed by the name.\<close>

definition add_defined_name :: "defined_name \<Rightarrow> workbook stmt" where
  "add_defined_name dn wb = Inr (wb\<lparr>defined_names := (defined_names wb)(dn_name dn \<mapsto> dn)\<rparr>)"

section \<open>The script\<close>

subsection \<open>Colours and fonts (lines 30 to 39)\<close>

definition blue_fill :: pattern_fill where
  "blue_fill = PatternFill ''D9E1F2'' ''D9E1F2'' (Some ''solid'')"

definition green_fill :: pattern_fill where
  "green_fill = PatternFill ''E2EFDA'' ''E2EFDA'' (Some ''solid'')"

definition orange_fill :: pattern_fill where
  "orange_fill = PatternFill ''FCE4D6'' ''FCE4D6'' (Some ''solid'')"

definition gray_fill :: pattern_fill where
  "gray_fill = PatternFill ''F2F2F2'' ''F2F2F2'' (Some ''solid'')"

definition red_fill :: pattern_fill where
  "red_fill = PatternFill ''FC9090'' ''FC9090'' (Some ''solid'')"

definition bold_font :: font where
  "bold_font = Font True None"

definition red_font :: font where
  "red_font = Font False (Some ''990000'')"

definition thin_border :: border where
  "thin_border = Border (Some ''thin'')"

subsection \<open>Sheet 1, EstimateData (lines 44 to 120)\<close>

definition headers :: "string list" where
  "headers = [''No'', ''Name'', ''Dept'', ''Grade'', ''BaseSalary'',
              ''RoleAllow'', ''Commute'', ''Total'', ''MoM'', ''Note'']"

definition sub_headers :: "string list" where
  "sub_headers = [[], [], [], [], ''(JPY)'', ''(JPY)'', ''(JPY)'', ''(JPY)'', ''(%)'', []]"

definition data :: "(int \<times> string \<times> string \<times> string \<times> int \<times> int \<times> int) list" where
  "data = [
     (1, ''Tanaka'', ''Sales'', ''M1'', 350000, 50000, 15000),
     (2, ''Yamada'', ''HR'', ''S3'', 280000, 0, 20000),
     (3, ''Suzuki'', ''Tech'', ''E2'', 320000, 30000, 12000),
     (4, ''Sato'', ''Sales'', ''M2'', 380000, 60000, 18000),
     (5, ''Takahashi'', ''Admin'', ''S2'', 260000, 0, 10000),
     (6, ''Watanabe'', ''Tech'', ''E3'', 340000, 35000, 25000),
     (7, ''Ito'', ''HR'', ''S1'', 250000, 0, 8000),
     (8, ''Nakamura'', ''Sales'', ''M1'', 350000, 50000, 15000),
     (9, ''Kobayashi'', ''Tech'', ''E1'', 300000, 20000, 22000),
     (10, ''Kato'', ''Admin'', ''S3'', 280000, 0, 10000)]"

definition col_widths :: "(string \<times> int) list" where
  "col_widths = [(''A'', 5), (''B'', 14), (''C'', 8), (''D'', 8), (''E'', 12),
                 (''F'', 12), (''G'', 12), (''H'', 14), (''I'', 8), (''J'', 10)]"

text \<open>The two formula strings of a data row (lines 85 and 88), as the f-strings build them.\<close>

definition total_formula :: "nat \<Rightarrow> string" where
  "total_formula row = ''=E'' @ str_nat row @ ''+F'' @ str_nat row @ ''+G'' @ str_nat row"

definition mom_formula :: "nat \<Rightarrow> string" where
  "mom_formula row =
     ''=ROUND((H'' @ str_nat row @ ''-H'' @ str_nat row @ ''*0.98)/H'' @ str_nat row @ ''*100,1)''"

text \<open>The body of the loop over \<open>data\<close> (lines 75 to 89).\<close>

definition data_row :: "nat \<times> int \<times> string \<times> string \<times> string \<times> int \<times> int \<times> int \<Rightarrow> sheet stmt" where
  "data_row = (\<lambda>(i, no, name, dept, grade, base, role, commute).
     (let row = i + 3 in
      block [
        ws_cell row 1 (VInt no) id,
        ws_cell row 2 (VStr name) id,
        ws_cell row 3 (VStr dept) id,
        ws_cell row 4 (VStr grade) id,
        ws_cell row 5 (VInt base) (number_format_update (\<lambda>_. ''#,##0'')),
        ws_cell row 6 (VInt role) (number_format_update (\<lambda>_. ''#,##0'')),
        ws_cell row 7 (VInt commute) (number_format_update (\<lambda>_. ''#,##0'')),
        ws_cell row 8 VNone (bind_value (VStr (total_formula row))),
        ws_cell row 8 VNone (number_format_update (\<lambda>_. ''#,##0'')),
        ws_cell row 9 VNone (bind_value (VStr (mom_formula row))),
        ws_cell row 9 VNone (number_format_update (\<lambda>_. ''0.0''))]))"

text \<open>The formula of the totals row (line 95).\<close>

definition sum_formula :: "string \<Rightarrow> string" where
  "sum_formula col_letter = ''=SUM('' @ col_letter @ ''3:'' @ col_letter @ ''12)''"

text \<open>The body of the loop over \<open>range(5, 9)\<close> (lines 93 to 98).\<close>

definition total_column :: "nat \<Rightarrow> sheet stmt" where
  "total_column c ws =
     (case get_column_letter c of
        Inl e \<Rightarrow> Inl e
      | Inr col_letter \<Rightarrow>
          block [
            ws_cell 13 c VNone (bind_value (VStr (sum_formula col_letter))),
            ws_cell 13 c VNone (number_format_update (\<lambda>_. ''#,##0'')),
            ws_cell 13 c VNone (cfont_update (\<lambda>_. bold_font)),
            ws_cell 13 c VNone (fill_update (\<lambda>_. orange_fill))] ws)"

definition build_EstimateData :: "sheet stmt" where
  "build_EstimateData = block [
     for_each (enumerate 1 headers) (\<lambda>(c, h).
       ws_cell 1 c (VStr h) (\<lambda>cell. cell\<lparr>cfont := bold_font, fill := blue_fill, cborder := thin_border\<rparr>)),
     for_each (enumerate 1 sub_headers) (\<lambda>(c, sh).
       ws_cell 2 c (VStr sh) (fill_update (\<lambda>_. green_fill))),
     for_each (enumerate 0 data) data_row,
     ws_cell 13 4 (VStr ''Total'') (cfont_update (\<lambda>_. bold_font)),
     for_each [5..<9] total_column,
     for_each [15..<21] (\<lambda>r.
       for_each [1..<11] (\<lambda>c.
         ws_cell r c VNone (fill_update (\<lambda>_. gray_fill)))),
     add_conditional_formatting ''I3:I12''
       (CellIsRule ''greaterThan'' [''2''] red_fill red_font),
     set_freeze_panes ''A3'',
     for_each col_widths (\<lambda>(col, width). set_column_width col width)]"

subsection \<open>Sheet 2, DeptSummary (lines 125 to 151)\<close>

definition dept_headers :: "string list" where
  "dept_headers = [''Dept'', ''Count'', ''TotalCost'', ''AvgSalary'']"

definition depts :: "string list" where
  "depts = [''Sales'', ''HR'', ''Tech'', ''Admin'']"

definition count_formula :: "nat \<Rightarrow> string" where
  "count_formula row = ''=COUNTIF(EstimateData!C:C,A'' @ str_nat row @ '')''"

definition cost_formula :: "nat \<Rightarrow> string" where
  "cost_formula row = ''=SUMIF(EstimateData!C:C,A'' @ str_nat row @ '',EstimateData!H:H)''"

definition avg_formula :: "nat \<Rightarrow> string" where
  "avg_formula row =
     ''=IF(B'' @ str_nat row @ ''>0,C'' @ str_nat row @ ''/B'' @ str_nat row @ '',0)''"

text \<open>The body of the loop over \<open>depts\<close> (lines 134 to 142).\<close>

definition dept_row :: "nat \<times> string \<Rightarrow> sheet stmt" where
  "dept_row = (\<lambda>(d, dept).
     (let row = d + 2 in
      block [
        ws_cell row 1 (VStr dept) id,
        ws_cell row 2 VNone (bind_value (VStr (count_formula row))),
        ws_cell row 3 VNone (bind_value (VStr (cost_formula row))),
        ws_cell row 3 VNone (number_format_update (\<lambda>_. ''#,##0'')),
        ws_cell row 4 VNone (bind_value (VStr (avg_formula row))),
        ws_cell row 4 VNone (number_format_update (\<lambda>_. ''#,##0''))]))"

definition build_DeptSummary_cells :: "sheet stmt" where
  "build_DeptSummary_cells = block [
     for_each (enumerate 1 dept_headers) (\<lambda>(c, h).
       ws_cell 1 c (VStr h) (\<lambda>cell. cell\<lparr>cfont := bold_font, fill := blue_fill\<rparr>)),
     for_each (enumerate 0 depts) dept_row]"

definition build_DeptSummary_widths :: "sheet stmt" where
  "build_DeptSummary_widths = for_each [''A'', ''B'', ''C'', ''D''] (\<lambda>col. set_column_width col 14)"

subsection \<open>Sheet 3, Settings (lines 156 to 173)\<close>

definition settings :: "(string \<times> cell_value) list" where
  "settings = [
     (''CalcMonth'', VStr ''2026-02''),
     (''TaxRate'', VFloat 1 1),
     (''InsuranceRate'', VFloat 15 2),
     (''CommuteLimit'', VInt 30000),
     (''Author'', VStr ''BP_User'')]"

definition build_Settings :: "sheet stmt" where
  "build_Settings = block [
     ws_cell 1 1 (VStr ''SettingName'') (cfont_update (\<lambda>_. bold_font)),
     ws_cell 1 2 (VStr ''Value'') (cfont_update (\<lambda>_. bold_font)),
     for_each (enumerate 0 settings) (\<lambda>(i, name, val). block [
       ws_cell (i + 2) 1 (VStr name) id,
       ws_cell (i + 2) 2 val id]),
     set_column_width ''A'' 18,
     set_column_width ''B'' 14]"

subsection \<open>The workbook built before the save (lines 27 to 173)\<close>

definition build_workbook :: "error + workbook" where
  "build_workbook =
     (let wb = Workbook; ws1 = active wb in
      bind_result (set_title ws1 ''EstimateData'' wb) (\<lambda>wb.
      bind_result (on_sheet ws1 build_EstimateData wb) (\<lambda>wb.
      (case create_sheet ''DeptSummary'' wb of (wb, ws2) \<Rightarrow>
      bind_result (on_sheet ws2 build_DeptSummary_cells wb) (\<lambda>wb.
      bind_result (add_defined_name (DefinedName ''DeptMaster'' ''DeptSummary!$A$2:$A$5'') wb) (\<lambda>wb.
      bind_result (add_defined_name (DefinedName ''TotalCost'' ''DeptSummary!$C$2:$C$5'') wb) (\<lambda>wb.
      bind_result (on_sheet ws2 build_DeptSummary_widths wb) (\<lambda>wb.
      (case create_sheet ''Settings'' wb of (wb, ws3) \<Rightarrow>
      on_sheet ws3 build_Settings wb)))))))))"

subsection \<open>Saving and the run of the script (lines 22, 23 and 178 to 183)\<close>

text \<open>
  What the script sees of its environment: the directory that holds the script (the
  value of \<open>os.path.dirname(os.path.abspath(__file__))\<close>), which paths can be written,
  the files on disk, and the lines printed so far. A saved file is kept as the workbook
  model that was written into it; the bytes of the container are not modelled.
\<close>

record world =
  script_dir :: string
  writable :: "string \<Rightarrow> bool"
  files :: "string \<rightharpoonup> workbook"
  stdout :: "string list"

text \<open>\<open>os.path.join\<close> of a directory and a relative file name.\<close>

definition path_join :: "string \<Rightarrow> string \<Rightarrow> string" where
  "path_join a b = (if a = [] \<or> last a = CHR ''/'' then a @ b else a @ ''/'' @ b)"

definition OUTPUT_DIR :: "world \<Rightarrow> string" where
  "OUTPUT_DIR w = script_dir w"

definition OUTPUT_PATH :: "world \<Rightarrow> string" where
  "OUTPUT_PATH w = path_join (OUTPUT_DIR w) ''TestWorkbook_HR_Estimate.xlsx''"

text \<open>
  \<open>wb.save(path)\<close> opens the path for writing, which raises \<open>OSError\<close> when the path
  cannot be written, and replaces whatever the path held.
\<close>

definition wb_save :: "workbook \<Rightarrow> string \<Rightarrow> world \<Rightarrow> error + world" where
  "wb_save wb path w =
     (if writable w path then Inr (w\<lparr>files := (files w)(path \<mapsto> wb)\<rparr>)
      else Inl (OSError path))"

definition print :: "string \<Rightarrow> world \<Rightarrow> world" where
  "print line w = w\<lparr>stdout := stdout w @ [line]\<rparr>"

text \<open>
  The function itself: build, save, print the summary. There is no \<open>try\<close> in the
  source, so the first exception is the result.
\<close>

definition create_test_workbook :: "world \<Rightarrow> error + world" where
  "create_test_workbook w =
     bind_result build_workbook (\<lambda>wb.
     bind_result (wb_save wb (OUTPUT_PATH w) w) (\<lambda>w'.
       Inr (print ''  Note: .xlsx format (no VBA). For VBA testing, use PS script on a PC with valid Excel license.''
           (print ''  Sheet3: Settings (master data)''
           (print ''  Sheet2: DeptSummary (cross-sheet formulas, named ranges)''
           (print ''  Sheet1: EstimateData (freeze panes, formulas, conditional format, format-only empty cells)''
           (print (''Test workbook created: '' @ OUTPUT_PATH w) w')))))))"

text \<open>\<open>wb[name]\<close>: the sheet of a workbook with a given title.\<close>

definition sheet_by_name :: "workbook \<Rightarrow> string \<Rightarrow> sheet option" where
  "sheet_by_name wb name = find (\<lambda>ws. title ws = name) (sheets wb)"

text \<open>
  The workbook a run leaves in the output file: \<open>None\<close> when the run ends in an
  exception.
\<close>

definition saved_workbook :: "world \<Rightarrow> workbook option" where
  "saved_workbook w =
     (case create_test_workbook w of Inl e \<Rightarrow> None | Inr w' \<Rightarrow> files w' (OUTPUT_PATH w))"

section \<open>The cells a sequence of cell assignments leaves\<close>

text \<open>
  Every cell statement of the script is a \<open>ws_cell\<close> call. A list of such calls, each
  given by its row, column, value and attribute assignments, is a \<open>cell_op list\<close>;
  \<open>put\<close> is the effect of one call that does not raise, and \<open>cell_after\<close> follows one
  cell through a list of calls.
\<close>

type_synonym cell_op = "nat \<times> nat \<times> cell_value \<times> (cell \<Rightarrow> cell)"

definition put :: "cell_op \<Rightarrow> sheet \<Rightarrow> sheet" where
  "put = (\<lambda>(r, c, v, u) ws.
     ws\<lparr>cells := (cells ws)((r, c) \<mapsto> u (if v \<noteq> VNone then bind_value v (get_cell ws r c) else get_cell ws r c))\<rparr>)"

definition run_ops :: "cell_op list \<Rightarrow> sheet stmt" where
  "run_ops ops = for_each ops (\<lambda>(r, c, v, u). ws_cell r c v u)"

definition op_ok :: "cell_op \<Rightarrow> bool" where
  "op_ok = (\<lambda>(r, c, v, u). 0 < r \<and> 0 < c)"

fun cell_after :: "cell_op list \<Rightarrow> nat \<times> nat \<Rightarrow> cell option \<Rightarrow> cell option" where
  "cell_after [] k co = co"
| "cell_after ((r, c, v, u) # ops) k co =
     cell_after ops k
       (if (r, c) = k
        then Some (u (if v \<noteq> VNone then bind_value v (case co of None \<Rightarrow> Cell | Some x \<Rightarrow> x)
                      else (case co of None \<Rightarrow> Cell | Some x \<Rightarrow> x)))
        else co)"

lemma ws_cell_put: "0 < r \<Longrightarrow> 0 < c \<Longrightarrow> ws_cell r c v u ws = Inr (put (r, c, v, u) ws)"
  by (simp add: ws_cell_def put_def Let_def)

lemma run_ops_ok: "list_all op_ok ops \<Longrightarrow> run_ops ops ws = Inr (fold put ops ws)"
  unfolding run_ops_def
  by (induction ops arbitrary: ws) (auto simp: op_ok_def ws_cell_put)

lemma cells_put:
  "cells (put (r, c, v, u) ws) k =
     (if (r, c) = k
      then Some (u (if v \<noteq> VNone then bind_value v (case cells ws k of None \<Rightarrow> Cell | Some x \<Rightarrow> x)
                    else (case cells ws k of None \<Rightarrow> Cell | Some x \<Rightarrow> x)))
      else cells ws k)"
  by (auto simp: put_def get_cell_def)

lemma cells_fold_put: "cells (fold put ops ws) k = cell_after ops k (cells ws k)"
proof (induction ops arbitrary: ws)
  case Nil
  show ?case by simp
next
  case (Cons a ops)
  obtain r c v u where a: "a = (r, c, v, u)" by (cases a) 
  show ?case by (simp add: a Cons.IH cells_put)
qed

lemma cell_after_append: "cell_after (a @ b) k co = cell_after b k (cell_after a k co)"
  by (induction a k co rule: cell_after.induct) auto

lemma others_put [simp]:
  "title (put a ws) = title ws"
  "conditional_formatting (put a ws) = conditional_formatting ws"
  "freeze_panes (put a ws) = freeze_panes ws"
  "column_dimensions (put a ws) = column_dimensions ws"
  by (cases a; simp add: put_def)+

lemma others_fold_put [simp]:
  "title (fold put ops ws) = title ws"
  "conditional_formatting (fold put ops ws) = conditional_formatting ws"
  "freeze_panes (fold put ops ws) = freeze_panes ws"
  "column_dimensions (fold put ops ws) = column_dimensions ws"
  by (induction ops arbitrary: ws; simp)+

lemma for_each_ops:
  assumes "\<And>x. x \<in> set xs \<Longrightarrow> body x = run_ops (g x)"
    and "\<And>x. x \<in> set xs \<Longrightarrow> list_all op_ok (g x)"
  shows "for_each xs body ws = Inr (fold put (concat (map g xs)) ws)"
  using assms
proof (induction xs arbitrary: ws)
  case Nil
  show ?case by simp
next
  case (Cons x xs)
  have "body x ws = Inr (fold put (g x) ws)"
    using Cons.prems by (simp add: run_ops_ok)
  moreover have "for_each xs body (fold put (g x) ws) = Inr (fold put (concat (map g xs)) (fold put (g x) ws))"
    using Cons.prems by (intro Cons.IH) auto
  ultimately show ?case by simp
qed

lemma ws_cell_run_ops: "ws_cell r c v u = run_ops [(r, c, v, u)]"
  by (rule ext) (simp add: run_ops_def split: sum.splits)

lemma block_run_ops: "block (map run_ops opss) = run_ops (concat opss)"
proof (rule ext)
  fix ws show "block (map run_ops opss) ws = run_ops (concat opss) ws"
  proof (induction opss arbitrary: ws)
    case Nil show ?case by (simp add: run_ops_def)
  next
    case (Cons a opss)
    have app: "\<And>b s. run_ops (a @ b) s = (case run_ops a s of Inl e \<Rightarrow> Inl e | Inr s' \<Rightarrow> run_ops b s')"
      unfolding run_ops_def by (induction a) (auto split: sum.splits)
    show ?case by (simp add: app Cons.IH split: sum.splits)
  qed
qed


lemma for_each_run_ops:
  assumes "\<And>x. x \<in> set xs \<Longrightarrow> body x = run_ops (g x)"
  shows "for_each xs body = run_ops (concat (map g xs))"
proof -
  have "for_each xs body ws = block (map run_ops (map g xs)) ws" for ws
    using assms by (induction xs arbitrary: ws) (simp_all split: sum.splits)
  then have "for_each xs body = block (map run_ops (map g xs))"
    by (rule ext)
  then show ?thesis using block_run_ops [of "map g xs"] by simp
qed

lemma block_append: "block (a @ b) ws = bind_result (block a ws) (block b)"
  by (induction a arbitrary: ws) (auto simp: bind_result_def split: sum.splits)

definition header_ops :: "cell_op list" where
  "header_ops = map (\<lambda>(c, h). (1, c, VStr h,
     \<lambda>cell. cell\<lparr>cfont := bold_font, fill := blue_fill, cborder := thin_border\<rparr>)) (enumerate 1 headers)"

definition sub_header_ops :: "cell_op list" where
  "sub_header_ops = map (\<lambda>(c, sh). (2, c, VStr sh, fill_update (\<lambda>_. green_fill))) (enumerate 1 sub_headers)"

definition data_row_ops :: "nat \<times> int \<times> string \<times> string \<times> string \<times> int \<times> int \<times> int \<Rightarrow> cell_op list" where
  "data_row_ops = (\<lambda>(i, no, name, dept, grade, base, role, commute).
     [(i + 3, 1, VInt no, id),
      (i + 3, 2, VStr name, id),
      (i + 3, 3, VStr dept, id),
      (i + 3, 4, VStr grade, id),
      (i + 3, 5, VInt base, number_format_update (\<lambda>_. ''#,##0'')),
      (i + 3, 6, VInt role, number_format_update (\<lambda>_. ''#,##0'')),
      (i + 3, 7, VInt commute, number_format_update (\<lambda>_. ''#,##0'')),
      (i + 3, 8, VNone, bind_value (VStr (total_formula (i + 3)))),
      (i + 3, 8, VNone, number_format_update (\<lambda>_. ''#,##0'')),
      (i + 3, 9, VNone, bind_value (VStr (mom_formula (i + 3)))),
      (i + 3, 9, VNone, number_format_update (\<lambda>_. ''0.0''))])"

definition total_column_ops :: "nat \<Rightarrow> cell_op list" where
  "total_column_ops c =
     [(13, c, VNone, bind_value (VStr (sum_formula (column_letters c)))),
      (13, c, VNone, number_format_update (\<lambda>_. ''#,##0'')),
      (13, c, VNone, cfont_update (\<lambda>_. bold_font)),
      (13, c, VNone, fill_update (\<lambda>_. orange_fill))]"

definition gray_ops :: "cell_op list" where
  "gray_ops = concat (map (\<lambda>r. map (\<lambda>c. (r, c, VNone, fill_update (\<lambda>_. gray_fill))) [1..<11]) [15..<21])"

definition EstimateData_ops :: "cell_op list" where
  "EstimateData_ops =
     header_ops @ sub_header_ops @ concat (map data_row_ops (enumerate 0 data))
     @ [(13, 4, VStr ''Total'', cfont_update (\<lambda>_. bold_font))]
     @ concat (map total_column_ops [5..<9]) @ gray_ops"

lemma data_row_run_ops: "data_row x = run_ops (data_row_ops x)"
  by (rule ext) (simp add: data_row_def data_row_ops_def run_ops_def Let_def split: prod.splits sum.splits)

lemma total_column_run_ops: "1 \<le> c \<Longrightarrow> c \<le> 18278 \<Longrightarrow> total_column c = run_ops (total_column_ops c)"
  by (rule ext) (simp add: total_column_def total_column_ops_def get_column_letter_def run_ops_def split: sum.splits)

lemma cells_EstimateData_run_ops:
  "block [
     for_each (enumerate 1 headers) (\<lambda>(c, h).
       ws_cell 1 c (VStr h) (\<lambda>cell. cell\<lparr>cfont := bold_font, fill := blue_fill, cborder := thin_border\<rparr>)),
     for_each (enumerate 1 sub_headers) (\<lambda>(c, sh).
       ws_cell 2 c (VStr sh) (fill_update (\<lambda>_. green_fill))),
     for_each (enumerate 0 data) data_row,
     ws_cell 13 4 (VStr ''Total'') (cfont_update (\<lambda>_. bold_font)),
     for_each [5..<9] total_column,
     for_each [15..<21] (\<lambda>r.
       for_each [1..<11] (\<lambda>c.
         ws_cell r c VNone (fill_update (\<lambda>_. gray_fill))))] = run_ops EstimateData_ops"
proof -
  have 1: "for_each (enumerate 1 headers) (\<lambda>(c, h).
       ws_cell 1 c (VStr h) (\<lambda>cell. cell\<lparr>cfont := bold_font, fill := blue_fill, cborder := thin_border\<rparr>))
       = run_ops header_ops"
    unfolding header_ops_def
    by (subst for_each_run_ops [where g = "\<lambda>x. [(\<lambda>(c, h). (1, c, VStr h,
     \<lambda>cell. cell\<lparr>cfont := bold_font, fill := blue_fill, cborder := thin_border\<rparr>)) x]"])
       (auto simp: ws_cell_run_ops)
  have 2: "for_each (enumerate 1 sub_headers) (\<lambda>(c, sh).
       ws_cell 2 c (VStr sh) (fill_update (\<lambda>_. green_fill))) = run_ops sub_header_ops"
    unfolding sub_header_ops_def
    by (subst for_each_run_ops [where g = "\<lambda>x. [(\<lambda>(c, sh). (2, c, VStr sh, fill_update (\<lambda>_. green_fill))) x]"])
       (auto simp: ws_cell_run_ops)
  have 3: "for_each (enumerate 0 data) data_row = run_ops (concat (map data_row_ops (enumerate 0 data)))"
    by (rule for_each_run_ops) (rule data_row_run_ops)
  have 5: "for_each [5..<9] total_column = run_ops (concat (map total_column_ops [5..<9]))"
    by (rule for_each_run_ops) (auto simp: total_column_run_ops)
  have 6: "for_each [15..<21] (\<lambda>r. for_each [1..<11] (\<lambda>c. ws_cell r c VNone (fill_update (\<lambda>_. gray_fill))))
      = run_ops gray_ops"
    unfolding gray_ops_def
  proof (rule for_each_run_ops)
    fix r :: nat
    show "for_each [1..<11] (\<lambda>c. ws_cell r c VNone (fill_update (\<lambda>_. gray_fill))) =
          run_ops (map (\<lambda>c. (r, c, VNone, fill_update (\<lambda>_. gray_fill))) [1..<11])"
      by (subst for_each_run_ops [where g = "\<lambda>c. [(r, c, VNone, fill_update (\<lambda>_. gray_fill))]"])
         (simp_all add: ws_cell_run_ops del: upt_rec_numeral)
  qed
  have flat: "block [run_ops header_ops, run_ops sub_header_ops,
               run_ops (concat (map data_row_ops (enumerate 0 data))),
               run_ops [(13, 4, VStr ''Total'', cfont_update (\<lambda>_. bold_font))],
               run_ops (concat (map total_column_ops [5..<9])), run_ops gray_ops]
        = run_ops EstimateData_ops"
    using block_run_ops [of "[header_ops, sub_header_ops, concat (map data_row_ops (enumerate 0 data)),
       [(13, 4, VStr ''Total'', cfont_update (\<lambda>_. bold_font))], concat (map total_column_ops [5..<9]), gray_ops]"]
    by (simp add: EstimateData_ops_def)
  show ?thesis
    by (subst 1, subst 2, subst 3, subst 5, subst 6, subst ws_cell_run_ops) (rule flat)
qed




definition key :: "cell_op \<Rightarrow> nat \<times> nat" where
  "key = (\<lambda>(r, c, v, u). (r, c))"

definition keys :: "cell_op list \<Rightarrow> (nat \<times> nat) set" where
  "keys ops = key ` set ops"

lemma key_simp [simp]: "key (r, c, v, u) = (r, c)"
  by (simp add: key_def)

lemma keys_simps [simp]:
  "keys [] = {}"
  "keys (x # ops) = insert (key x) (keys ops)"
  "keys (a @ b) = keys a \<union> keys b"
  by (simp_all add: keys_def image_Un)

lemma keys_concat: "keys (concat xss) = (\<Union>xs \<in> set xss. keys xs)"
  by (induction xss) simp_all

lemma cell_after_skip: "k \<notin> keys ops \<Longrightarrow> cell_after ops k co = co"
  by (induction ops k co rule: cell_after.induct) auto

lemma cell_after_pick:
  assumes "distinct xs" and "y \<in> set xs"
    and "\<And>x. x \<in> set xs \<Longrightarrow> x \<noteq> y \<Longrightarrow> k \<notin> keys (g x)"
  shows "cell_after (concat (map g xs)) k co = cell_after (g y) k co"
  using assms
proof (induction xs arbitrary: co)
  case Nil
  then show ?case by simp
next
  case (Cons x xs)
  show ?case
  proof (cases "x = y")
    case True
    then have "y \<notin> set xs" using Cons.prems(1) by simp
    then have "k \<notin> keys (concat (map g xs))"
      using Cons.prems(3) by (auto simp: keys_concat)
    then show ?thesis
      by (simp add: True cell_after_append cell_after_skip)
  next
    case False
    then have "k \<notin> keys (g x)" and "y \<in> set xs"
      using Cons.prems by auto
    then show ?thesis
      using Cons.IH [of co] Cons.prems by (simp add: cell_after_append cell_after_skip)
  qed
qed

lemma keys_header_ops: "(r, c) \<in> keys header_ops \<Longrightarrow> r = 1 \<and> 1 \<le> c"
  by (auto simp: keys_def header_ops_def in_set_enumerate_eq)

lemma keys_sub_header_ops: "(r, c) \<in> keys sub_header_ops \<Longrightarrow> r = 2 \<and> 1 \<le> c"
  by (auto simp: keys_def sub_header_ops_def in_set_enumerate_eq)

lemma keys_data_row_ops: "(r, c) \<in> keys (data_row_ops (i, t)) \<Longrightarrow> r = i + 3 \<and> 1 \<le> c \<and> c \<le> 9"
  by (cases t) (auto simp: data_row_ops_def)

lemma keys_total_column_ops: "keys (total_column_ops c) = {(13, c)}"
  by (simp add: total_column_ops_def)

lemma keys_gray_ops: "(r, c) \<in> keys gray_ops \<longleftrightarrow> 15 \<le> r \<and> r < 21 \<and> 1 \<le> c \<and> c < 11"
  by (auto simp: keys_def gray_ops_def image_iff simp del: upt_rec_numeral)

lemma op_ok_iff: "list_all op_ok ops \<longleftrightarrow> (\<forall>(r, c) \<in> keys ops. 0 < r \<and> 0 < c)"
  by (force simp: list_all_iff op_ok_def keys_def key_def)


lemma EstimateData_ops_ok: "list_all op_ok EstimateData_ops"
  unfolding op_ok_iff EstimateData_ops_def
proof (clarify)
  fix r c
  assume "(r, c) \<in> keys (header_ops @ sub_header_ops @ concat (map data_row_ops (enumerate 0 data)) @
              [(13, 4, VStr ''Total'', cfont_update (\<lambda>_. bold_font))] @
              concat (map total_column_ops [5..<9]) @ gray_ops)"
  then consider "(r, c) \<in> keys header_ops" | "(r, c) \<in> keys sub_header_ops"
    | i t where "(r, c) \<in> keys (data_row_ops (i, t))" | "(r, c) = (13, 4)"
    | c' where "(r, c) = (13, c')" "5 \<le> c'" | "(r, c) \<in> keys gray_ops"
    by (auto simp: keys_concat keys_total_column_ops simp del: upt_rec_numeral)
  then show "0 < r \<and> 0 < c"
  proof cases
    case 1 then show ?thesis using keys_header_ops by fastforce
  next
    case 2 then show ?thesis using keys_sub_header_ops by fastforce
  next
    case 3 then show ?thesis using keys_data_row_ops by fastforce
  next
    case 6 then show ?thesis by (simp add: keys_gray_ops)
  qed auto
qed

lemma for_each_widths:
  "for_each cw (\<lambda>(col, width). set_column_width col width) s
     = Inr (s\<lparr>column_dimensions := fold (\<lambda>(col, width) m. m(col \<mapsto> width)) cw (column_dimensions s)\<rparr>)"
  by (induction cw arbitrary: s) (auto simp: set_column_width_def)


lemma block_snoc3:
  "block (f1 # f2 # f3 # f4 # f5 # f6 # rest) = (\<lambda>ws. bind_result (block [f1, f2, f3, f4, f5, f6] ws) (block rest))"
  using block_append [of "[f1, f2, f3, f4, f5, f6]" rest] by (intro ext) (simp del: block.simps)

lemma build_EstimateData_eq:
  "build_EstimateData ws = Inr ((fold put EstimateData_ops ws)
      \<lparr>conditional_formatting := conditional_formatting ws @
          [(''I3:I12'', CellIsRule ''greaterThan'' [''2''] red_fill red_font)],
       freeze_panes := Some ''A3'',
       column_dimensions := fold (\<lambda>(col, width) m. m(col \<mapsto> width)) col_widths (column_dimensions ws)\<rparr>)"
proof -
  have "build_EstimateData ws = bind_result (run_ops EstimateData_ops ws)
      (block [add_conditional_formatting ''I3:I12'' (CellIsRule ''greaterThan'' [''2''] red_fill red_font),
              set_freeze_panes ''A3'',
              for_each col_widths (\<lambda>(col, width). set_column_width col width)])"
    unfolding build_EstimateData_def
    by (subst block_snoc3) (simp only: cells_EstimateData_run_ops)
  also have "\<dots> = block [add_conditional_formatting ''I3:I12'' (CellIsRule ''greaterThan'' [''2''] red_fill red_font),
              set_freeze_panes ''A3'',
              for_each col_widths (\<lambda>(col, width). set_column_width col width)] (fold put EstimateData_ops ws)"
    by (simp only: run_ops_ok [OF EstimateData_ops_ok] bind_result_def sum.case)
  finally show ?thesis
    by (simp add: add_conditional_formatting_def set_freeze_panes_def for_each_widths)
qed

lemma cells_EstimateData:
  "build_EstimateData ws = Inr ws' \<Longrightarrow> cells ws' k = cell_after EstimateData_ops k (cells ws k)"
  by (auto simp: build_EstimateData_eq cells_fold_put)


lemma length_data: "length data = 10"
  by (simp add: data_def)

lemma cell_after_data_rows:
  assumes "3 \<le> r" "r \<le> 12"
  shows "cell_after (concat (map data_row_ops (enumerate 0 data))) (r, c) co
         = cell_after (data_row_ops (r - 3, data ! (r - 3))) (r, c) co"
proof (rule cell_after_pick)
  show "distinct (enumerate 0 data)" by simp
  show "(r - 3, data ! (r - 3)) \<in> set (enumerate 0 data)"
    using assms by (simp add: in_set_enumerate_eq length_data)
  fix x assume x: "x \<in> set (enumerate 0 data)" "x \<noteq> (r - 3, data ! (r - 3))"
  obtain i t where it: "x = (i, t)" by (cases x)
  have "i \<noteq> r - 3" using x by (auto simp: it in_set_enumerate_eq)
  then have "i + 3 \<noteq> r" using assms by arith
  then show "(r, c) \<notin> keys (data_row_ops x)"
    unfolding it using keys_data_row_ops by blast
qed

lemma cell_after_EstimateData_data:
  assumes "3 \<le> r" "r \<le> 12"
  shows "cell_after EstimateData_ops (r, c) co = cell_after (data_row_ops (r - 3, data ! (r - 3))) (r, c) co"
proof -
  have 1: "(r, c) \<notin> keys header_ops" using keys_header_ops assms by fastforce
  have 2: "(r, c) \<notin> keys sub_header_ops" using keys_sub_header_ops assms by fastforce
  have 3: "(r, c) \<notin> keys (concat (map total_column_ops [5..<9]))"
    using assms by (auto simp: keys_concat keys_total_column_ops simp del: upt_rec_numeral)
  have 4: "(r, c) \<notin> keys gray_ops" using assms by (simp add: keys_gray_ops)
  have 5: "(r, c) \<notin> keys [(13, 4, VStr ''Total'', cfont_update (\<lambda>_. bold_font))]"
    using assms by simp
  show ?thesis
    unfolding EstimateData_ops_def cell_after_append
    by (simp only: cell_after_skip [OF 1] cell_after_skip [OF 2] cell_after_skip [OF 3]
        cell_after_skip [OF 4] cell_after_skip [OF 5] cell_after_data_rows [OF assms])
qed

lemma data_row_total_cell:
  "cell_after (data_row_ops (i, t)) (i + 3, 8) None
     = Some (Cell\<lparr>cvalue := VStr (total_formula (i + 3)),
                  data_type := (if 1 < length (total_formula (i + 3)) \<and> hd (total_formula (i + 3)) = CHR ''=''
                                then TypeFormula else TypeString),
                  number_format := ''#,##0''\<rparr>)"
  by (cases t) (simp add: data_row_ops_def bind_value_def)

subsection \<open>Sheets 2 and 3 as lists of cell assignments\<close>

definition dept_header_ops :: "cell_op list" where
  "dept_header_ops = map (\<lambda>(c, h). (1, c, VStr h,
     \<lambda>cell. cell\<lparr>cfont := bold_font, fill := blue_fill\<rparr>)) (enumerate 1 dept_headers)"

definition dept_row_ops :: "nat \<times> string \<Rightarrow> cell_op list" where
  "dept_row_ops = (\<lambda>(d, dept).
     [(d + 2, 1, VStr dept, id),
      (d + 2, 2, VNone, bind_value (VStr (count_formula (d + 2)))),
      (d + 2, 3, VNone, bind_value (VStr (cost_formula (d + 2)))),
      (d + 2, 3, VNone, number_format_update (\<lambda>_. ''#,##0'')),
      (d + 2, 4, VNone, bind_value (VStr (avg_formula (d + 2)))),
      (d + 2, 4, VNone, number_format_update (\<lambda>_. ''#,##0''))])"

definition DeptSummary_ops :: "cell_op list" where
  "DeptSummary_ops = dept_header_ops @ concat (map dept_row_ops (enumerate 0 depts))"

definition setting_row_ops :: "nat \<times> string \<times> cell_value \<Rightarrow> cell_op list" where
  "setting_row_ops = (\<lambda>(i, name, val). [(i + 2, 1, VStr name, id), (i + 2, 2, val, id)])"

definition Settings_ops :: "cell_op list" where
  "Settings_ops =
     [(1, 1, VStr ''SettingName'', cfont_update (\<lambda>_. bold_font)),
      (1, 2, VStr ''Value'', cfont_update (\<lambda>_. bold_font))]
     @ concat (map setting_row_ops (enumerate 0 settings))"

lemma dept_row_run_ops: "dept_row x = run_ops (dept_row_ops x)"
  by (rule ext) (simp add: dept_row_def dept_row_ops_def run_ops_def Let_def split: prod.splits sum.splits)

lemma keys_dept_header_ops: "(r, c) \<in> keys dept_header_ops \<Longrightarrow> r = 1 \<and> 1 \<le> c"
  by (auto simp: keys_def dept_header_ops_def in_set_enumerate_eq)

lemma keys_dept_row_ops: "(r, c) \<in> keys (dept_row_ops (d, t)) \<Longrightarrow> r = d + 2 \<and> 1 \<le> c \<and> c \<le> 4"
  by (auto simp: dept_row_ops_def)

lemma keys_setting_row_ops: "(r, c) \<in> keys (setting_row_ops (i, t)) \<Longrightarrow> r = i + 2 \<and> 1 \<le> c \<and> c \<le> 2"
  by (cases t) (auto simp: setting_row_ops_def)

lemma DeptSummary_ops_ok: "list_all op_ok DeptSummary_ops"
  unfolding op_ok_iff DeptSummary_ops_def
proof (clarify)
  fix r c
  assume "(r, c) \<in> keys (dept_header_ops @ concat (map dept_row_ops (enumerate 0 depts)))"
  then consider "(r, c) \<in> keys dept_header_ops" | d t where "(r, c) \<in> keys (dept_row_ops (d, t))"
    by (auto simp: keys_concat)
  then show "0 < r \<and> 0 < c"
  proof cases
    case 1 then show ?thesis using keys_dept_header_ops by fastforce
  next
    case 2 then show ?thesis using keys_dept_row_ops by fastforce
  qed
qed

lemma Settings_ops_ok: "list_all op_ok Settings_ops"
  unfolding op_ok_iff Settings_ops_def
proof (clarify)
  fix r c
  assume "(r, c) \<in> keys ([(1, 1, VStr ''SettingName'', cfont_update (\<lambda>_. bold_font)),
      (1, 2, VStr ''Value'', cfont_update (\<lambda>_. bold_font))]
     @ concat (map setting_row_ops (enumerate 0 settings)))"
  then consider "(r, c) = (1, 1)" | "(r, c) = (1, 2)" | i t where "(r, c) \<in> keys (setting_row_ops (i, t))"
    by (auto simp: keys_concat)
  then show "0 < r \<and> 0 < c"
  proof cases
    case 3 then show ?thesis using keys_setting_row_ops by fastforce
  qed auto
qed

lemma build_DeptSummary_cells_eq: "build_DeptSummary_cells ws = Inr (fold put DeptSummary_ops ws)"
proof -
  have 1: "for_each (enumerate 1 dept_headers) (\<lambda>(c, h).
       ws_cell 1 c (VStr h) (\<lambda>cell. cell\<lparr>cfont := bold_font, fill := blue_fill\<rparr>)) = run_ops dept_header_ops"
    unfolding dept_header_ops_def
    by (subst for_each_run_ops [where g = "\<lambda>x. [(\<lambda>(c, h). (1, c, VStr h,
     \<lambda>cell. cell\<lparr>cfont := bold_font, fill := blue_fill\<rparr>)) x]"])
       (auto simp: ws_cell_run_ops)
  have 2: "for_each (enumerate 0 depts) dept_row = run_ops (concat (map dept_row_ops (enumerate 0 depts)))"
    by (rule for_each_run_ops) (rule dept_row_run_ops)
  have "build_DeptSummary_cells = run_ops DeptSummary_ops"
    unfolding build_DeptSummary_cells_def 1 2 DeptSummary_ops_def
    using block_run_ops [of "[dept_header_ops, concat (map dept_row_ops (enumerate 0 depts))]"]
    by simp
  then have "build_DeptSummary_cells ws = run_ops DeptSummary_ops ws"
    by (rule fun_cong)
  then show ?thesis
    by (simp only: run_ops_ok [OF DeptSummary_ops_ok])
qed

lemma build_DeptSummary_widths_eq:
  "build_DeptSummary_widths ws =
     Inr (ws\<lparr>column_dimensions := (column_dimensions ws)(''A'' \<mapsto> 14, ''B'' \<mapsto> 14, ''C'' \<mapsto> 14, ''D'' \<mapsto> 14)\<rparr>)"
  by (simp add: build_DeptSummary_widths_def set_column_width_def)

lemma setting_row_run_ops:
  "(\<lambda>(i, name, val). block [ws_cell (i + 2) 1 (VStr name) id, ws_cell (i + 2) 2 val id]) x
     = run_ops (setting_row_ops x)"
  by (rule ext) (simp add: setting_row_ops_def run_ops_def split: prod.splits sum.splits)

lemma build_Settings_eq:
  "build_Settings ws =
     Inr ((fold put Settings_ops ws)\<lparr>column_dimensions := (column_dimensions ws)(''A'' \<mapsto> 18, ''B'' \<mapsto> 14)\<rparr>)"
proof -
  have loop: "for_each (enumerate 0 settings) (\<lambda>(i, name, val). block [
       ws_cell (i + 2) 1 (VStr name) id,
       ws_cell (i + 2) 2 val id]) = run_ops (concat (map setting_row_ops (enumerate 0 settings)))"
    by (rule for_each_run_ops) (rule setting_row_run_ops)
  have cells: "block [ws_cell 1 1 (VStr ''SettingName'') (cfont_update (\<lambda>_. bold_font)),
     ws_cell 1 2 (VStr ''Value'') (cfont_update (\<lambda>_. bold_font)),
     for_each (enumerate 0 settings) (\<lambda>(i, name, val). block [
       ws_cell (i + 2) 1 (VStr name) id,
       ws_cell (i + 2) 2 val id])] = run_ops Settings_ops"
    apply (subst loop)
    unfolding ws_cell_run_ops Settings_ops_def
    using block_run_ops [of "[[(1, 1, VStr ''SettingName'', cfont_update (\<lambda>_. bold_font))],
      [(1, 2, VStr ''Value'', cfont_update (\<lambda>_. bold_font))],
      concat (map setting_row_ops (enumerate 0 settings))]"]
    by simp
  have "build_Settings ws = bind_result (run_ops Settings_ops ws)
      (block [set_column_width ''A'' 18, set_column_width ''B'' 14])"
    unfolding build_Settings_def cells [symmetric]
    using block_append [of "[ws_cell 1 1 (VStr ''SettingName'') (cfont_update (\<lambda>_. bold_font)),
     ws_cell 1 2 (VStr ''Value'') (cfont_update (\<lambda>_. bold_font)),
     for_each (enumerate 0 settings) (\<lambda>(i, name, val). block [
       ws_cell (i + 2) 1 (VStr name) id,
       ws_cell (i + 2) 2 val id])]" "[set_column_width ''A'' 18, set_column_width ''B'' 14]" ws]
    by (simp del: block.simps)
  then show ?thesis
    by (simp add: run_ops_ok [OF Settings_ops_ok] bind_result_def set_column_width_def)
qed

section \<open>The workbook the script builds and saves\<close>

text \<open>
  The three sheets and the workbook in closed form: the cell assignments of each sheet
  folded over the empty sheet, with the sheet attributes the script sets afterwards.
\<close>

definition EstimateData_sheet :: sheet where
  "EstimateData_sheet =
     (fold put EstimateData_ops ((Worksheet ''Sheet'')\<lparr>title := ''EstimateData''\<rparr>))
       \<lparr>conditional_formatting := [(''I3:I12'', CellIsRule ''greaterThan'' [''2''] red_fill red_font)],
        freeze_panes := Some ''A3'',
        column_dimensions := fold (\<lambda>(col, width) m. m(col \<mapsto> width)) col_widths Map.empty\<rparr>"

definition DeptSummary_sheet :: sheet where
  "DeptSummary_sheet =
     (fold put DeptSummary_ops (Worksheet ''DeptSummary''))
       \<lparr>column_dimensions := [''A'' \<mapsto> 14, ''B'' \<mapsto> 14, ''C'' \<mapsto> 14, ''D'' \<mapsto> 14]\<rparr>"

definition Settings_sheet :: sheet where
  "Settings_sheet =
     (fold put Settings_ops (Worksheet ''Settings''))\<lparr>column_dimensions := [''A'' \<mapsto> 18, ''B'' \<mapsto> 14]\<rparr>"

definition built_workbook :: workbook where
  "built_workbook =
     \<lparr>sheets = [EstimateData_sheet, DeptSummary_sheet, Settings_sheet],
      defined_names = [''DeptMaster'' \<mapsto> DefinedName ''DeptMaster'' ''DeptSummary!$A$2:$A$5'',
                       ''TotalCost'' \<mapsto> DefinedName ''TotalCost'' ''DeptSummary!$C$2:$C$5'']\<rparr>"

lemma title_built_sheets:
  "title EstimateData_sheet = ''EstimateData''"
  "title DeptSummary_sheet = ''DeptSummary''"
  "title Settings_sheet = ''Settings''"
  by (simp_all add: EstimateData_sheet_def DeptSummary_sheet_def Settings_sheet_def Worksheet_def)

lemma build_workbook_eq: "build_workbook = Inr built_workbook"
proof -
  let ?dn1 = "DefinedName ''DeptMaster'' ''DeptSummary!$A$2:$A$5''"
  let ?dn2 = "DefinedName ''TotalCost'' ''DeptSummary!$C$2:$C$5''"
  let ?W1 = "\<lparr>sheets = [(Worksheet ''Sheet'')\<lparr>title := ''EstimateData''\<rparr>], defined_names = Map.empty\<rparr>"
  let ?W2 = "\<lparr>sheets = [EstimateData_sheet], defined_names = Map.empty\<rparr>"
  let ?W3 = "\<lparr>sheets = [EstimateData_sheet, Worksheet ''DeptSummary''], defined_names = Map.empty\<rparr>"
  let ?W4 = "\<lparr>sheets = [EstimateData_sheet, fold put DeptSummary_ops (Worksheet ''DeptSummary'')],
              defined_names = Map.empty\<rparr>"
  let ?W5 = "\<lparr>sheets = [EstimateData_sheet, fold put DeptSummary_ops (Worksheet ''DeptSummary'')],
              defined_names = [''DeptMaster'' \<mapsto> ?dn1]\<rparr>"
  let ?W6 = "\<lparr>sheets = [EstimateData_sheet, fold put DeptSummary_ops (Worksheet ''DeptSummary'')],
              defined_names = [''DeptMaster'' \<mapsto> ?dn1, ''TotalCost'' \<mapsto> ?dn2]\<rparr>"
  let ?W7 = "\<lparr>sheets = [EstimateData_sheet, DeptSummary_sheet],
              defined_names = [''DeptMaster'' \<mapsto> ?dn1, ''TotalCost'' \<mapsto> ?dn2]\<rparr>"
  let ?W8 = "\<lparr>sheets = [EstimateData_sheet, DeptSummary_sheet, Worksheet ''Settings''],
              defined_names = [''DeptMaster'' \<mapsto> ?dn1, ''TotalCost'' \<mapsto> ?dn2]\<rparr>"
  have a: "active Workbook = Some 0"
    by (simp add: active_def Workbook_def)
  have s1: "set_title (Some 0) ''EstimateData'' Workbook = Inr ?W1"
    by (simp add: set_title_def on_sheet_def Workbook_def Worksheet_def avoid_duplicate_name_def sheetnames_def)
  have s2: "on_sheet (Some 0) build_EstimateData ?W1 = Inr ?W2"
    by (simp add: on_sheet_def build_EstimateData_eq EstimateData_sheet_def Worksheet_def)
  have s3: "create_sheet ''DeptSummary'' ?W2 = (?W3, Some 1)"
    by (simp add: create_sheet_def avoid_duplicate_name_def sheetnames_def title_built_sheets)
  have s4: "on_sheet (Some 1) build_DeptSummary_cells ?W3 = Inr ?W4"
    by (simp add: on_sheet_def build_DeptSummary_cells_eq)
  have s5: "add_defined_name ?dn1 ?W4 = Inr ?W5"
    by (simp add: add_defined_name_def DefinedName_def)
  have s6: "add_defined_name ?dn2 ?W5 = Inr ?W6"
    by (simp add: add_defined_name_def DefinedName_def)
  have s7: "on_sheet (Some 1) build_DeptSummary_widths ?W6 = Inr ?W7"
    by (simp add: on_sheet_def build_DeptSummary_widths_eq DeptSummary_sheet_def Worksheet_def)
  have s8: "create_sheet ''Settings'' ?W7 = (?W8, Some 2)"
    by (simp add: create_sheet_def avoid_duplicate_name_def sheetnames_def title_built_sheets)
  have s9: "on_sheet (Some 2) build_Settings ?W8 = Inr built_workbook"
    by (simp add: on_sheet_def build_Settings_eq Settings_sheet_def Worksheet_def built_workbook_def)
  show ?thesis
    unfolding build_workbook_def Let_def a
    by (simp only: s1 s2 s3 s4 s5 s6 s7 s8 s9 bind_result_def sum.case prod.case)
qed

lemma create_test_workbook_eq:
  "create_test_workbook w =
     (if writable w (OUTPUT_PATH w)
      then Inr (w\<lparr>files := (files w)(OUTPUT_PATH w \<mapsto> built_workbook),
                 stdout := stdout w @
                   [''Test workbook created: '' @ OUTPUT_PATH w,
                    ''  Sheet1: EstimateData (freeze panes, formulas, conditional format, format-only empty cells)'',
                    ''  Sheet2: DeptSummary (cross-sheet formulas, named ranges)'',
                    ''  Sheet3: Settings (master data)'',
                    ''  Note: .xlsx format (no VBA). For VBA testing, use PS script on a PC with valid Excel license.'']\<rparr>)
      else Inl (OSError (OUTPUT_PATH w)))"
  by (simp add: create_test_workbook_def build_workbook_eq bind_result_def wb_save_def print_def)

lemma saved_workbook_eq:
  "saved_workbook w = (if writable w (OUTPUT_PATH w) then Some built_workbook else None)"
  by (simp add: saved_workbook_def create_test_workbook_eq)

lemma sheetnames_built: "sheetnames built_workbook = [''EstimateData'', ''DeptSummary'', ''Settings'']"
  by (simp add: sheetnames_def built_workbook_def title_built_sheets)

subsection \<open>Single cells of the first sheet\<close>

lemma cells_EstimateData_sheet: "cells EstimateData_sheet k = cell_after EstimateData_ops k None"
  by (simp add: EstimateData_sheet_def cells_fold_put Worksheet_def)

lemma sheet_by_name_built:
  "sheet_by_name built_workbook ''EstimateData'' = Some EstimateData_sheet"
  "sheet_by_name built_workbook ''DeptSummary'' = Some DeptSummary_sheet"
  "sheet_by_name built_workbook ''Settings'' = Some Settings_sheet"
  by (simp_all add: sheet_by_name_def built_workbook_def title_built_sheets)

lemma data_row_mom_cell:
  "cell_after (data_row_ops (i, t)) (i + 3, 9) None
     = Some (Cell\<lparr>cvalue := VStr (mom_formula (i + 3)),
                  data_type := (if 1 < length (mom_formula (i + 3)) \<and> hd (mom_formula (i + 3)) = CHR ''=''
                                then TypeFormula else TypeString),
                  number_format := ''0.0''\<rparr>)"
  by (cases t) (simp add: data_row_ops_def bind_value_def)

lemma keys_data_rows:
  assumes "(r, c) \<in> keys (concat (map data_row_ops (enumerate 0 data)))"
  shows "3 \<le> r \<and> r \<le> 12"
proof -
  from assms obtain i t where "(i, t) \<in> set (enumerate 0 data)" "(r, c) \<in> keys (data_row_ops (i, t))"
    by (auto simp: keys_concat)
  then have "i < 10" "r = i + 3"
    using keys_data_row_ops by (auto simp: in_set_enumerate_eq length_data)
  then show ?thesis by simp
qed

lemma cell_after_EstimateData_row13:
  "cell_after EstimateData_ops (13, c) co
     = cell_after (concat (map total_column_ops [5..<9])) (13, c)
         (cell_after [(13, 4, VStr ''Total'', cfont_update (\<lambda>_. bold_font))] (13, c) co)"
proof -
  have 1: "(13, c) \<notin> keys header_ops" using keys_header_ops by fastforce
  have 2: "(13, c) \<notin> keys sub_header_ops" using keys_sub_header_ops by fastforce
  have 3: "(13, c) \<notin> keys (concat (map data_row_ops (enumerate 0 data)))"
    using keys_data_rows by fastforce
  have 4: "(13, c) \<notin> keys gray_ops" by (simp add: keys_gray_ops)
  show ?thesis
    unfolding EstimateData_ops_def cell_after_append
    by (simp only: cell_after_skip [OF 1] cell_after_skip [OF 2] cell_after_skip [OF 3]
        cell_after_skip [OF 4])
qed

lemma pick_total_column:
  assumes "5 \<le> c" "c \<le> 8"
  shows "cell_after (concat (map total_column_ops [5..<9])) (13, c) co
       = cell_after (total_column_ops c) (13, c) co"
proof (rule cell_after_pick)
  show "distinct [5..<9]" by (rule distinct_upt)
  show "c \<in> set [5..<9]" using assms by (simp del: upt_rec_numeral)
  fix x :: nat assume "x \<noteq> c"
  then show "(13, c) \<notin> keys (total_column_ops x)"
    by (simp add: keys_total_column_ops)
qed

lemma total_column_ops_cell:
  "cell_after (total_column_ops c) (13, c) None
     = Some (Cell\<lparr>cvalue := VStr (sum_formula (column_letters c)),
                  data_type := (if 1 < length (sum_formula (column_letters c))
                                    \<and> hd (sum_formula (column_letters c)) = CHR ''=''
                                then TypeFormula else TypeString),
                  number_format := ''#,##0'', cfont := bold_font, fill := orange_fill\<rparr>)"
  by (simp add: total_column_ops_def bind_value_def)

lemma total_label_cell:
  "cell_after EstimateData_ops (13, 4) None
     = Some (Cell\<lparr>cvalue := VStr ''Total'', data_type := TypeString, cfont := bold_font\<rparr>)"
proof -
  have no: "(13, 4) \<notin> keys (concat (map total_column_ops [5..<9]))"
    by (auto simp: keys_concat keys_total_column_ops simp del: upt_rec_numeral)
  have "cell_after EstimateData_ops (13, 4) None
      = cell_after [(13, 4, VStr ''Total'', cfont_update (\<lambda>_. bold_font))] (13, 4) None"
    by (simp only: cell_after_EstimateData_row13 cell_after_skip [OF no])
  then show ?thesis
    by (simp add: bind_value_def)
qed

lemma total_column_cell:
  assumes "5 \<le> c" "c \<le> 8"
  shows "cell_after EstimateData_ops (13, c) None
     = Some (Cell\<lparr>cvalue := VStr (sum_formula (column_letters c)),
                  data_type := (if 1 < length (sum_formula (column_letters c))
                                    \<and> hd (sum_formula (column_letters c)) = CHR ''=''
                                then TypeFormula else TypeString),
                  number_format := ''#,##0'', cfont := bold_font, fill := orange_fill\<rparr>)"
proof -
  have no: "(13, c) \<notin> keys [(13, 4, VStr ''Total'', cfont_update (\<lambda>_. bold_font))]"
    using assms by simp
  have "cell_after EstimateData_ops (13, c) None = cell_after (total_column_ops c) (13, c) None"
    by (simp only: cell_after_EstimateData_row13 cell_after_skip [OF no] pick_total_column [OF assms])
  then show ?thesis
    by (simp only: total_column_ops_cell)
qed

lemma column_letters_single: "1 \<le> c \<Longrightarrow> c \<le> 25 \<Longrightarrow> column_letters c = [letter_char c]"
  by (subst column_letters.simps, subst column_letters.simps) (simp add: Let_def)

lemma cell_after_gray:
  assumes "15 \<le> r" "r \<le> 20" "1 \<le> c" "c \<le> 10"
  shows "cell_after EstimateData_ops (r, c) None = Some (Cell\<lparr>fill := gray_fill\<rparr>)"
proof -
  have 1: "(r, c) \<notin> keys header_ops" using keys_header_ops assms by fastforce
  have 2: "(r, c) \<notin> keys sub_header_ops" using keys_sub_header_ops assms by fastforce
  have 3: "(r, c) \<notin> keys (concat (map data_row_ops (enumerate 0 data)))"
    using keys_data_rows assms by fastforce
  have 4: "(r, c) \<notin> keys (concat (map total_column_ops [5..<9]))"
    using assms by (auto simp: keys_concat keys_total_column_ops simp del: upt_rec_numeral)
  have 5: "(r, c) \<notin> keys [(13, 4, VStr ''Total'', cfont_update (\<lambda>_. bold_font))]"
    using assms by simp
  have row: "cell_after gray_ops (r, c) co
      = cell_after (map (\<lambda>c. (r, c, VNone, fill_update (\<lambda>_. gray_fill))) [1..<11]) (r, c) co" for co
    unfolding gray_ops_def
  proof (rule cell_after_pick)
    show "distinct [15..<21]" by (rule distinct_upt)
    show "r \<in> set [15..<21]" using assms by (simp del: upt_rec_numeral)
    fix x :: nat assume "x \<noteq> r"
    then show "(r, c) \<notin> keys (map (\<lambda>c. (x, c, VNone, fill_update (\<lambda>_. gray_fill))) [1..<11])"
      by (auto simp: keys_def simp del: upt_rec_numeral)
  qed
  have "cell_after (concat (map (\<lambda>c. [(r, c, VNone, fill_update (\<lambda>_. gray_fill))]) [1..<11])) (r, c) co
      = cell_after [(r, c, VNone, fill_update (\<lambda>_. gray_fill))] (r, c) co" for co
  proof (rule cell_after_pick)
    show "distinct [1..<11]" by (rule distinct_upt)
    show "c \<in> set [1..<11]" using assms by (simp del: upt_rec_numeral)
    fix x :: nat assume "x \<noteq> c"
    then show "(r, c) \<notin> keys [(r, x, VNone, fill_update (\<lambda>_. gray_fill))]"
      by simp
  qed
  then have col: "cell_after (map (\<lambda>c. (r, c, VNone, fill_update (\<lambda>_. gray_fill))) [1..<11]) (r, c) co
      = cell_after [(r, c, VNone, fill_update (\<lambda>_. gray_fill))] (r, c) co" for co
    by (simp only: concat_map_singleton)
  have "cell_after EstimateData_ops (r, c) None
      = cell_after [(r, c, VNone, fill_update (\<lambda>_. gray_fill))] (r, c) None"
    unfolding EstimateData_ops_def cell_after_append
    by (simp only: cell_after_skip [OF 1] cell_after_skip [OF 2] cell_after_skip [OF 3]
        cell_after_skip [OF 4] cell_after_skip [OF 5] row col)
  then show ?thesis by simp
qed

section \<open>The claims\<close>

text \<open>A world in which the script sits in a directory it can write to, used for the witnesses.\<close>

abbreviation (input) example_world :: world where
  "example_world \<equiv> \<lparr>script_dir = ''/repo/screenshot-tool'', writable = (\<lambda>p. True),
                      files = Map.empty, stdout = []\<rparr>"

text \<open>
  C1. The workbook produced by \<open>create_test_workbook\<close> contains exactly three sheets
  named, in this order, EstimateData, DeptSummary, Settings; the first is the active sheet
  of the fresh workbook (titled Sheet there), renamed.
\<close>

theorem C1_three_sheets_in_order:
  "writable w (OUTPUT_PATH w) \<Longrightarrow>
     \<exists>wb. saved_workbook w = Some wb
        \<and> sheetnames wb = [''EstimateData'', ''DeptSummary'', ''Settings'']
        \<and> length (sheets wb) = 3
        \<and> active Workbook = Some 0 \<and> sheetnames Workbook = [''Sheet'']
        \<and> active wb = Some 0 \<and> title (sheets wb ! 0) = ''EstimateData''"
proof -
  assume "writable w (OUTPUT_PATH w)"
  then have "saved_workbook w = Some built_workbook"
    by (simp add: saved_workbook_eq)
  moreover have "sheetnames built_workbook = [''EstimateData'', ''DeptSummary'', ''Settings'']"
    by (rule sheetnames_built)
  moreover have "length (sheets built_workbook) = 3" "active built_workbook = Some 0"
    "title (sheets built_workbook ! 0) = ''EstimateData''"
    by (simp_all add: built_workbook_def active_def title_built_sheets)
  moreover have "active Workbook = Some 0" "sheetnames Workbook = [''Sheet'']"
    by (simp_all add: active_def Workbook_def sheetnames_def Worksheet_def)
  ultimately show ?thesis by blast
qed

theorem C1_three_sheets_in_order_witness:
  "writable example_world (OUTPUT_PATH example_world)
   \<and> (\<exists>wb. saved_workbook example_world = Some wb
        \<and> sheetnames wb = [''EstimateData'', ''DeptSummary'', ''Settings''])"
  using C1_three_sheets_in_order [of example_world] by auto

end
